theory Spec2Isabelle
  imports Main "HOL-Library.AList"
begin

section \<open>Python values and text primitives\<close>

text \<open>
  The program \<^verbatim>\<open>adb_connect_map.py\<close> handles text and device records.  A record is a
  dictionary from text to text or \<^verbatim>\<open>None\<close>: these are the values the program itself
  writes, and the registry file is taken to hold no others.  A dictionary is an association list in insertion order, as
  Python keeps it and as \<^verbatim>\<open>json.dump\<close> writes it; \<^verbatim>\<open>d[k] = v\<close> replaces the value of an
  existing key in place and appends a new key at the end.  Text is a list of bytes; the
  whitespace and line-boundary classes below are the ASCII members of Python's classes.
\<close>

datatype pyval = PNone | PStr string

datatype error = IndexError | KeyError | TypeError | EOFError | SystemExit

type_synonym pydict = "(string \<times> pyval) list"

definition truthy :: "pyval \<Rightarrow> bool" where
  "truthy v = (case v of PNone \<Rightarrow> False | PStr s \<Rightarrow> s \<noteq> [])"

definition py_str :: "pyval \<Rightarrow> string" where
  "py_str v = (case v of PNone \<Rightarrow> ''None'' | PStr s \<Rightarrow> s)"

definition dict_get :: "pydict \<Rightarrow> string \<Rightarrow> pyval" where
  "dict_get d k = (case map_of d k of None \<Rightarrow> PNone | Some v \<Rightarrow> v)"

definition dict_get_default :: "pydict \<Rightarrow> string \<Rightarrow> pyval \<Rightarrow> pyval" where
  "dict_get_default d k dflt = (case map_of d k of None \<Rightarrow> dflt | Some v \<Rightarrow> v)"

definition dict_item :: "pydict \<Rightarrow> string \<Rightarrow> error + pyval" where
  "dict_item d k = (case map_of d k of None \<Rightarrow> Inl KeyError | Some v \<Rightarrow> Inr v)"

definition dict_set :: "pydict \<Rightarrow> string \<Rightarrow> pyval \<Rightarrow> pydict" where
  "dict_set d k v = AList.update k v d"

definition TAB :: char where "TAB = CHR 0x09"
definition LF :: char where "LF = CHR 0x0A"
definition CR :: char where "CR = CHR 0x0D"

definition py_isspace :: "char \<Rightarrow> bool" where
  "py_isspace c = (c \<in> set [CHR 0x09, CHR 0x0A, CHR 0x0B, CHR 0x0C, CHR 0x0D,
                              CHR 0x1C, CHR 0x1D, CHR 0x1E, CHR 0x1F, CHR 0x20])"

definition py_islinebreak :: "char \<Rightarrow> bool" where
  "py_islinebreak c = (c \<in> set [CHR 0x0A, CHR 0x0B, CHR 0x0C, CHR 0x0D,
                                  CHR 0x1C, CHR 0x1D, CHR 0x1E])"

definition py_isdigit :: "char \<Rightarrow> bool" where
  "py_isdigit c = (c \<in> set ''0123456789'')"

definition strip :: "string \<Rightarrow> string" where
  "strip s = rev (dropWhile py_isspace (rev (dropWhile py_isspace s)))"

text \<open>\<^verbatim>\<open>s.splitlines()\<close>: \<^verbatim>\<open>cur\<close> is the line being read, reversed; \<^verbatim>\<open>after_cr\<close> says
  that the previous character was a carriage return, so that a line feed right after it
  belongs to the same line boundary.\<close>

fun splitlines_from :: "bool \<Rightarrow> string \<Rightarrow> string \<Rightarrow> string list" where
  "splitlines_from after_cr cur [] = (if cur = [] then [] else [rev cur])"
| "splitlines_from after_cr cur (c # cs) =
     (if c = LF \<and> after_cr then splitlines_from False cur cs
      else if c = CR then rev cur # splitlines_from True [] cs
      else if py_islinebreak c then rev cur # splitlines_from False [] cs
      else splitlines_from False (c # cur) cs)"

definition splitlines :: "string \<Rightarrow> string list" where
  "splitlines s = splitlines_from False [] s"

text \<open>\<^verbatim>\<open>s.split()\<close>: the maximal runs of non-whitespace.\<close>

fun split_ws_from :: "string \<Rightarrow> string \<Rightarrow> string list" where
  "split_ws_from cur [] = (if cur = [] then [] else [rev cur])"
| "split_ws_from cur (c # cs) =
     (if py_isspace c then (if cur = [] then split_ws_from [] cs else rev cur # split_ws_from [] cs)
      else split_ws_from (c # cur) cs)"

definition split_ws :: "string \<Rightarrow> string list" where
  "split_ws s = split_ws_from [] s"

text \<open>\<^verbatim>\<open>s.split(sep)\<close> for a one-character separator: never empty, empty fields kept.\<close>

fun split_on_from :: "char \<Rightarrow> string \<Rightarrow> string \<Rightarrow> string list" where
  "split_on_from sep cur [] = [rev cur]"
| "split_on_from sep cur (c # cs) =
     (if c = sep then rev cur # split_on_from sep [] cs else split_on_from sep (c # cur) cs)"

definition split_on :: "char \<Rightarrow> string \<Rightarrow> string list" where
  "split_on sep s = split_on_from sep [] s"

text \<open>\<^verbatim>\<open>xs[i]\<close> for a non-negative literal index.\<close>

definition item :: "'a list \<Rightarrow> nat \<Rightarrow> error + 'a" where
  "item xs i = (if i < length xs then Inr (xs ! i) else Inl IndexError)"

text \<open>\<^verbatim>\<open>sub in s\<close> for two strings.\<close>

fun starts_with :: "string \<Rightarrow> string \<Rightarrow> bool" where
  "starts_with [] s = True"
| "starts_with (p # ps) [] = False"
| "starts_with (p # ps) (c # cs) = (p = c \<and> starts_with ps cs)"

fun str_in :: "string \<Rightarrow> string \<Rightarrow> bool" where
  "str_in sub [] = (sub = [])"
| "str_in sub (c # cs) = (starts_with sub (c # cs) \<or> str_in sub cs)"

text \<open>\<^verbatim>\<open>x in s\<close> where \<^verbatim>\<open>x\<close> comes out of a dictionary: Python raises \<^verbatim>\<open>TypeError\<close> when the
  left operand is \<^verbatim>\<open>None\<close>.\<close>

definition py_in :: "pyval \<Rightarrow> string \<Rightarrow> error + bool" where
  "py_in v s = (case v of PNone \<Rightarrow> Inl TypeError | PStr sub \<Rightarrow> Inr (str_in sub s))"

text \<open>\<^verbatim>\<open>re.match(r'^\d{1,3}(\.\d{1,3}){3}:\d+$', serial)\<close>.  The three character classes of
  the pattern are disjoint, so a match is a text with exactly one colon, before it four
  dot-separated groups of one to three digits and after it one or more digits.  The serial
  is a tab-separated field of one line, so it holds no line feed and \<^verbatim>\<open>$\<close> is the end.
  Digits are the ASCII digits.\<close>

definition digit_group :: "string \<Rightarrow> bool" where
  "digit_group g = (1 \<le> length g \<and> length g \<le> 3 \<and> list_all py_isdigit g)"

definition is_ip_port :: "string \<Rightarrow> bool" where
  "is_ip_port s =
     (case split_on (CHR '':'') s of
        [host, port] \<Rightarrow>
          (let groups = split_on (CHR ''.'') host
           in length groups = 4 \<and> list_all digit_group groups \<and> port \<noteq> [] \<and> list_all py_isdigit port)
      | _ \<Rightarrow> False)"

section \<open>The world: the bridge tool, the registry file\<close>

text \<open>
  Everything the program learns about the devices comes from \<^verbatim>\<open>adb_command\<close>.  The bridge tool is a
  parameter: given the events so far and a command line, it answers with the raw text of
  the command, or with \<^verbatim>\<open>None\<close> when the command exits with an error
  (\<^verbatim>\<open>CalledProcessError\<close>).  The answer is taken to be valid UTF-8.  The world records every
  command issued and the content of \<^verbatim>\<open>device_map.json\<close>: the list under its key
  \<^verbatim>\<open>"devices"\<close>, or \<^verbatim>\<open>None\<close> while the file does not exist.  Printing is not recorded;
  an exception raised while building a printed text is.
\<close>

datatype event = Adb string | Scrcpy string

type_synonym bridge = "event list \<Rightarrow> string \<Rightarrow> string option"

record world =
  events :: "event list"
  json_file :: "pydict list option"

definition truthy_text :: "string option \<Rightarrow> bool" where
  "truthy_text t = (case t of None \<Rightarrow> False | Some s \<Rightarrow> s \<noteq> [])"

definition or_empty :: "string option \<Rightarrow> string" where
  "or_empty t = (case t of None \<Rightarrow> [] | Some s \<Rightarrow> s)"

definition adb_command :: "bridge \<Rightarrow> string \<Rightarrow> world \<Rightarrow> string option \<times> world" where
  "adb_command br command w =
     (map_option strip (br (events w) command), w\<lparr>events := events w @ [Adb command]\<rparr>)"

section \<open>Connection medium, address, device facts, status\<close>

fun scan_connection_type :: "string list \<Rightarrow> pyval \<Rightarrow> error + string" where
  "scan_connection_type [] serial = Inr ''offline''"
| "scan_connection_type (line # lines) serial =
     (case py_in serial line of
        Inl e \<Rightarrow> Inl e
      | Inr True \<Rightarrow> (if str_in '':5555'' line then Inr ''wifi'' else Inr ''usb'')
      | Inr False \<Rightarrow> scan_connection_type lines serial)"

definition get_device_connection_type :: "bridge \<Rightarrow> pyval \<Rightarrow> world \<Rightarrow> (error + string) \<times> world" where
  "get_device_connection_type br serial w =
     (case adb_command br ''adb devices -l'' w of
        (devices_list, w1) \<Rightarrow>
          (if truthy_text devices_list
           then (scan_connection_type (splitlines (or_empty devices_list)) serial, w1)
           else (Inr ''offline'', w1)))"

text \<open>\<^verbatim>\<open>ip_address.split()[1].split('/')[0]\<close>\<close>

definition parse_ip :: "string \<Rightarrow> error + string" where
  "parse_ip ip_address =
     (case item (split_ws ip_address) 1 of
        Inl e \<Rightarrow> Inl e
      | Inr tok \<Rightarrow> item (split_on (CHR ''/'') tok) 0)"

definition ip_query :: "string \<Rightarrow> string" where
  "ip_query serial = ''adb -s '' @ serial @ '' shell ip addr show wlan0 | grep inet''"

definition model_query :: "string \<Rightarrow> string" where
  "model_query serial = ''adb -s '' @ serial @ '' shell getprop ro.product.model''"

definition device_query :: "string \<Rightarrow> string" where
  "device_query serial = ''adb -s '' @ serial @ '' shell getprop ro.product.device''"

definition serialno_query :: "string \<Rightarrow> string" where
  "serialno_query serial = ''adb -s '' @ serial @ '' shell getprop ro.serialno''"

definition get_device_ip :: "bridge \<Rightarrow> string \<Rightarrow> world \<Rightarrow> (error + string option) \<times> world" where
  "get_device_ip br serial w =
     (case adb_command br (ip_query serial) w of
        (ip_address, w1) \<Rightarrow>
          (if truthy_text ip_address
           then (case parse_ip (or_empty ip_address) of
                   Inl e \<Rightarrow> (Inl e, w1)
                 | Inr a \<Rightarrow> (Inr (Some a), w1))
           else (Inr None, w1)))"

definition of_text :: "string option \<Rightarrow> pyval" where
  "of_text t = (case t of None \<Rightarrow> PNone | Some s \<Rightarrow> PStr s)"

definition get_device_info :: "bridge \<Rightarrow> string \<Rightarrow> world \<Rightarrow> (error + pydict option) \<times> world" where
  "get_device_info br serial w =
     (case adb_command br (model_query serial) w of
        (model, w1) \<Rightarrow>
     (case adb_command br (device_query serial) w1 of
        (device_type, w2) \<Rightarrow>
     (case adb_command br (serialno_query serial) w2 of
        (serial_number, w3) \<Rightarrow>
     (case get_device_connection_type br (PStr serial) w3 of
        (Inl e, w4) \<Rightarrow> (Inl e, w4)
      | (Inr connection_type, w4) \<Rightarrow>
     (case (if connection_type = ''wifi'' then get_device_ip br serial w4 else (Inr None, w4)) of
        (Inl e, w5) \<Rightarrow> (Inl e, w5)
      | (Inr fetched, w5) \<Rightarrow>
          (let ip_address = (if connection_type = ''usb'' then PNone else of_text fetched)
           in if truthy_text model \<and> truthy_text device_type \<and> truthy_text serial_number
              then (Inr (Some [(''model'', of_text model),
                               (''device_type'', of_text device_type),
                               (''serial_number'', of_text serial_number),
                               (''ip_address'', ip_address)]), w5)
              else (Inr None, w5)))))))"

fun scan_status :: "string list \<Rightarrow> string \<Rightarrow> error + string" where
  "scan_status [] serial = Inr ''offline''"
| "scan_status (line # lines) serial =
     (if str_in serial line then item (split_on TAB line) 1
      else scan_status lines serial)"

definition get_device_status :: "bridge \<Rightarrow> string \<Rightarrow> world \<Rightarrow> (error + string) \<times> world" where
  "get_device_status br serial w =
     (case adb_command br ''adb devices'' w of
        (devices_list, w1) \<Rightarrow>
          (if truthy_text devices_list
           then (scan_status (splitlines (or_empty devices_list)) serial, w1)
           else (Inr ''offline'', w1)))"

section \<open>Authorization check\<close>

fun scan_authorized :: "string list \<Rightarrow> pyval \<Rightarrow> error + bool" where
  "scan_authorized [] serial = Inr False"
| "scan_authorized (line # lines) serial =
     (case py_in serial line of
        Inl e \<Rightarrow> Inl e
      | Inr False \<Rightarrow> scan_authorized lines serial
      | Inr True \<Rightarrow>
          (case item (split_on TAB line) 1 of
             Inl e \<Rightarrow> Inl e
           | Inr status \<Rightarrow>
               (if status = ''device'' then Inr True
                else if status = ''unauthorized'' then Inr False
                else scan_authorized lines serial)))"

definition is_device_authorized :: "bridge \<Rightarrow> pyval \<Rightarrow> world \<Rightarrow> (error + bool) \<times> world" where
  "is_device_authorized br serial w =
     (case adb_command br ''adb devices'' w of
        (devices_list, w1) \<Rightarrow>
          (if truthy_text devices_list
           then (scan_authorized (splitlines (or_empty devices_list)) serial, w1)
           else (Inr False, w1)))"

section \<open>Registry reconciliation\<close>

text \<open>The four blocks of the branch for a serial already in the registry.  The record is
  changed in place in the list, so the flag \<^verbatim>\<open>updated\<close> and the final write-back of the
  same object have no effect of their own.\<close>

definition fill_field :: "bridge \<Rightarrow> string \<Rightarrow> string \<Rightarrow> pydict \<Rightarrow> world \<Rightarrow> pydict \<times> world" where
  "fill_field br key command device w =
     (if \<not> truthy (dict_get device key)
      then (case adb_command br command w of
              (answer, w1) \<Rightarrow> (dict_set device key (PStr (or_empty answer)), w1))
      else (device, w))"

definition fill_wifi_address ::
  "bridge \<Rightarrow> string \<Rightarrow> string \<Rightarrow> pydict \<Rightarrow> world \<Rightarrow> (error + pydict) \<times> world" where
  "fill_wifi_address br serial connection_type device w =
     (if connection_type = ''wifi'' \<and> \<not> truthy (dict_get device ''ip_address'')
      then (case adb_command br (ip_query serial) w of
              (answer, w1) \<Rightarrow>
                (let ip_address = or_empty answer
                 in if ip_address \<noteq> []
                    then (case parse_ip ip_address of
                            Inl e \<Rightarrow> (Inl e, w1)
                          | Inr a \<Rightarrow> (Inr (dict_set device ''ip_address'' (PStr a)), w1))
                    else (Inr device, w1)))
      else (Inr device, w))"

definition set_usb_address :: "string \<Rightarrow> pydict \<Rightarrow> pydict" where
  "set_usb_address connection_type device =
     (if connection_type = ''usb'' \<and> \<not> truthy (dict_get device ''ip_address'')
      then dict_set device ''ip_address'' (PStr [])
      else device)"

definition set_status :: "string \<Rightarrow> pydict \<Rightarrow> pydict" where
  "set_status status device =
     (if dict_get device ''status'' \<noteq> PStr status
      then dict_set device ''status'' (PStr status)
      else device)"

definition update_existing ::
  "bridge \<Rightarrow> string \<Rightarrow> string \<Rightarrow> pydict \<Rightarrow> world \<Rightarrow> (error + pydict) \<times> world" where
  "update_existing br serial status device w =
     (case fill_field br ''model'' (model_query serial) device w of
        (d1, w1) \<Rightarrow>
     (case fill_field br ''device_type'' (device_query serial) d1 w1 of
        (d2, w2) \<Rightarrow>
     (case get_device_connection_type br (PStr serial) w2 of
        (Inl e, w3) \<Rightarrow> (Inl e, w3)
      | (Inr connection_type, w3) \<Rightarrow>
     (case fill_wifi_address br serial connection_type d2 w3 of
        (Inl e, w4) \<Rightarrow> (Inl e, w4)
      | (Inr d3, w4) \<Rightarrow>
          (Inr (set_status status (set_usb_address connection_type d3)), w4)))))"

definition new_device :: "string \<Rightarrow> string \<Rightarrow> pydict \<Rightarrow> pydict" where
  "new_device serial status device_info =
     [(''name'', PStr []),
      (''serial'', PStr serial),
      (''model'', dict_get_default device_info ''model'' (PStr [])),
      (''device_type'', dict_get_default device_info ''device_type'' (PStr [])),
      (''ip_address'', dict_get_default device_info ''ip_address'' (PStr [])),
      (''status'', PStr status)]"

text \<open>The branch for a status other than \<^verbatim>\<open>device\<close>: it only builds the name it prints.\<close>

fun find_existing :: "pydict list \<Rightarrow> string \<Rightarrow> error + pydict option" where
  "find_existing [] serial = Inr None"
| "find_existing (device # devices) serial =
     (case dict_item device ''serial'' of
        Inl e \<Rightarrow> Inl e
      | Inr v \<Rightarrow> (if v = PStr serial then Inr (Some device) else find_existing devices serial))"

definition display_name :: "pydict list \<Rightarrow> string \<Rightarrow> error + string" where
  "display_name devices serial =
     (case find_existing devices serial of
        Inl e \<Rightarrow> Inl e
      | Inr None \<Rightarrow> Inr serial
      | Inr (Some existing_device) \<Rightarrow>
          (if existing_device \<noteq> []
           then (if truthy (dict_get existing_device ''name'')
                 then Inr (py_str (dict_get existing_device ''name''))
                 else if truthy (dict_get existing_device ''model'')
                 then Inr (py_str (dict_get existing_device ''model''))
                 else Inr serial)
           else Inr serial))"

type_synonym device_index = "pyval \<Rightarrow> nat option"

text \<open>\<^verbatim>\<open>{device["serial"]: idx for idx, device in enumerate(device_map["devices"])}\<close>\<close>

fun build_index :: "pydict list \<Rightarrow> nat \<Rightarrow> device_index \<Rightarrow> error + device_index" where
  "build_index [] idx device_index = Inr device_index"
| "build_index (device # devices) idx device_index =
     (case dict_item device ''serial'' of
        Inl e \<Rightarrow> Inl e
      | Inr v \<Rightarrow> build_index devices (Suc idx) (device_index(v \<mapsto> idx)))"

text \<open>The body of the loop over the lines of the listing, for one line.\<close>

definition reconcile_line ::
  "bridge \<Rightarrow> string \<Rightarrow> pydict list \<times> device_index \<Rightarrow> world
     \<Rightarrow> (error + pydict list \<times> device_index) \<times> world" where
  "reconcile_line br line st w =
     (case st of (devices, device_index) \<Rightarrow>
      if strip line \<noteq> [] \<and> strip line \<noteq> ''List of devices attached''
      then (case item (split_on TAB line) 0 of
              Inl e \<Rightarrow> (Inl e, w)
            | Inr token \<Rightarrow>
           (let serial = (if is_ip_port token then [] else token)
            in if serial = [] then (Inr st, w)
               else (case get_device_status br serial w of
                       (Inl e, w1) \<Rightarrow> (Inl e, w1)
                     | (Inr status, w1) \<Rightarrow>
                         (if status = ''device''
                          then (case device_index (PStr serial) of
                                  Some i \<Rightarrow>
                                    (case item devices i of
                                       Inl e \<Rightarrow> (Inl e, w1)
                                     | Inr device \<Rightarrow>
                                         (case update_existing br serial status device w1 of
                                            (Inl e, w2) \<Rightarrow> (Inl e, w2)
                                          | (Inr device', w2) \<Rightarrow>
                                              (Inr (devices[i := device'], device_index), w2)))
                                | None \<Rightarrow>
                                    (case get_device_info br serial w1 of
                                       (Inl e, w2) \<Rightarrow> (Inl e, w2)
                                     | (Inr None, w2) \<Rightarrow> (Inr st, w2)
                                     | (Inr (Some device_info), w2) \<Rightarrow>
                                         (Inr (devices @ [new_device serial status device_info],
                                               device_index(PStr serial \<mapsto> length devices)), w2)))
                          else (case display_name devices serial of
                                  Inl e \<Rightarrow> (Inl e, w1)
                                | Inr shown \<Rightarrow> (Inr st, w1))))))
      else (Inr st, w))"

fun reconcile_lines ::
  "bridge \<Rightarrow> string list \<Rightarrow> pydict list \<times> device_index \<Rightarrow> world
     \<Rightarrow> (error + pydict list \<times> device_index) \<times> world" where
  "reconcile_lines br [] st w = (Inr st, w)"
| "reconcile_lines br (line # lines) st w =
     (case reconcile_line br line st w of
        (Inl e, w1) \<Rightarrow> (Inl e, w1)
      | (Inr st1, w1) \<Rightarrow> reconcile_lines br lines st1 w1)"

text \<open>A missing file is read as the empty registry.  The file is written only after the
  loop, so a run that raises leaves it as it was.\<close>

definition load_devices :: "world \<Rightarrow> pydict list" where
  "load_devices w = (case json_file w of None \<Rightarrow> [] | Some devices \<Rightarrow> devices)"

definition update_device_map :: "bridge \<Rightarrow> world \<Rightarrow> (error + unit) \<times> world" where
  "update_device_map br w =
     (case adb_command br ''adb devices'' w of
        (devices_list, w1) \<Rightarrow>
          (case build_index (load_devices w1) 0 Map.empty of
             Inl e \<Rightarrow> (Inl e, w1)
           | Inr device_index \<Rightarrow>
               (case (if truthy_text devices_list
                      then reconcile_lines br (splitlines (or_empty devices_list))
                             (load_devices w1, device_index) w1
                      else (Inr (load_devices w1, device_index), w1)) of
                  (Inl e, w2) \<Rightarrow> (Inl e, w2)
                | (Inr (devices, device_index'), w2) \<Rightarrow>
                    (Inr (), w2\<lparr>json_file := Some devices\<rparr>))))"

section \<open>Selection menu\<close>

text \<open>\<^verbatim>\<open>int(text)\<close> in base ten: surrounding whitespace, one optional sign, then digits, with
  single underscores allowed between digits.  \<^verbatim>\<open>None\<close> stands for \<^verbatim>\<open>ValueError\<close>.\<close>

definition digit_value :: "char \<Rightarrow> int" where
  "digit_value c = int (of_char c) - 48"

definition digits_value :: "string \<Rightarrow> int" where
  "digits_value ds = foldl (\<lambda>acc c. 10 * acc + digit_value c) 0 ds"

definition digits_ok :: "string \<Rightarrow> bool" where
  "digits_ok body = list_all (\<lambda>g. g \<noteq> [] \<and> list_all py_isdigit g) (split_on (CHR ''_'') body)"

definition py_int :: "string \<Rightarrow> int option" where
  "py_int s =
     (case strip s of
        [] \<Rightarrow> None
      | c # cs \<Rightarrow>
          (let negative = (c = CHR ''-'');
               body = (if c = CHR ''-'' \<or> c = CHR ''+'' then cs else c # cs)
           in if digits_ok body
              then Some ((if negative then - 1 else 1) *
                         digits_value (filter (\<lambda>d. d \<noteq> CHR ''_'') body))
              else None))"

text \<open>\<^verbatim>\<open>xs[i]\<close> for a computed index, which Python counts from the end when negative.\<close>

definition py_item :: "'a list \<Rightarrow> int \<Rightarrow> error + 'a" where
  "py_item xs i =
     (if 0 \<le> i then item xs (nat i)
      else if - int (length xs) \<le> i then Inr (xs ! (length xs - nat (- i)))
      else Inl IndexError)"

text \<open>The loop that prints the options reads \<^verbatim>\<open>device['serial']\<close> of every device.\<close>

fun print_menu_options :: "pydict list \<Rightarrow> error + unit" where
  "print_menu_options [] = Inr ()"
| "print_menu_options (device # devices) =
     (case dict_item device ''serial'' of
        Inl e \<Rightarrow> Inl e
      | Inr v \<Rightarrow> print_menu_options devices)"

text \<open>The menu reads the pending input lines; it returns the lines left.  A text that is
  no integer, or an integer out of range, makes the menu call itself again.\<close>

fun display_device_menu ::
  "bridge \<Rightarrow> pydict list \<Rightarrow> string list \<Rightarrow> world \<Rightarrow> (error + int) \<times> string list \<times> world" where
  "display_device_menu br devices [] w =
     (case print_menu_options devices of
        Inl e \<Rightarrow> (Inl e, [], w)
      | Inr u \<Rightarrow> (Inl EOFError, [], w))"
| "display_device_menu br devices (typed # rest) w =
     (case print_menu_options devices of
        Inl e \<Rightarrow> (Inl e, typed # rest, w)
      | Inr u \<Rightarrow>
          (case py_int typed of
             None \<Rightarrow> display_device_menu br devices rest w
           | Some choice \<Rightarrow>
               (if 0 \<le> choice \<and> choice \<le> int (length devices)
                then (case py_item devices (choice - 1) of
                        Inl e \<Rightarrow> (Inl e, rest, w)
                      | Inr selected_device \<Rightarrow>
                          (case dict_item selected_device ''serial'' of
                             Inl e \<Rightarrow> (Inl e, rest, w)
                           | Inr serial \<Rightarrow>
                               (case is_device_authorized br serial w of
                                  (Inl e, w1) \<Rightarrow> (Inl e, rest, w1)
                                | (Inr authorized, w1) \<Rightarrow>
                                    (if \<not> authorized then (Inr 0, rest, w1)
                                     else (Inr choice, rest, w1)))))
                else display_device_menu br devices rest w)))"

section \<open>Session launcher\<close>

text \<open>Two dictionaries are equal in Python when they hold the same items, in any order;
  the keys of one dictionary are distinct.\<close>

definition dict_eq :: "pydict \<Rightarrow> pydict \<Rightarrow> bool" where
  "dict_eq d e = (set d = set e)"

definition disconnect_command :: "pyval \<Rightarrow> string" where
  "disconnect_command serial = ''adb -s '' @ py_str serial @ '' disconnect''"

text \<open>\<^verbatim>\<open>[device for device in device_map["devices"] if device["status"] == "device"]\<close>\<close>

fun connected_devices :: "pydict list \<Rightarrow> error + pydict list" where
  "connected_devices [] = Inr []"
| "connected_devices (device # devices) =
     (case dict_item device ''status'' of
        Inl e \<Rightarrow> Inl e
      | Inr v \<Rightarrow>
          (case connected_devices devices of
             Inl e \<Rightarrow> Inl e
           | Inr kept \<Rightarrow> Inr (if v = PStr ''device'' then device # kept else kept)))"

text \<open>The loop "Disconnect all devices except the selected one" of \<^verbatim>\<open>main\<close>.\<close>

fun disconnect_others :: "bridge \<Rightarrow> pydict list \<Rightarrow> pydict \<Rightarrow> world \<Rightarrow> (error + unit) \<times> world" where
  "disconnect_others br [] selected_device w = (Inr (), w)"
| "disconnect_others br (device # devices) selected_device w =
     (if \<not> dict_eq device selected_device
      then (case dict_item device ''serial'' of
              Inl e \<Rightarrow> (Inl e, w)
            | Inr serial \<Rightarrow>
                (case dict_item device ''name'' of
                   Inl e \<Rightarrow> (Inl e, w)
                 | Inr name \<Rightarrow>
                     (case adb_command br (disconnect_command serial) w of
                        (answer, w1) \<Rightarrow> disconnect_others br devices selected_device w1)))
      else disconnect_others br devices selected_device w)"

text \<open>The rest of the loop body of \<^verbatim>\<open>main\<close>: connect, start the mirroring tool, exit.\<close>

definition connect_selected :: "bridge \<Rightarrow> pydict \<Rightarrow> world \<Rightarrow> (error + unit) \<times> world" where
  "connect_selected br selected_device w =
     (case dict_item selected_device ''serial'' of
        Inl e \<Rightarrow> (Inl e, w)
      | Inr serial \<Rightarrow>
     (case get_device_connection_type br serial w of
        (Inl e, w1) \<Rightarrow> (Inl e, w1)
      | (Inr connection_type, w1) \<Rightarrow>
     (case (if connection_type = ''wifi''
            then (case dict_item selected_device ''ip_address'' of
                    Inl e \<Rightarrow> (Inl e, w1)
                  | Inr ip \<Rightarrow>
                      (Inr (), snd (adb_command br (''adb connect '' @ py_str ip @ '':5555'') w1)))
            else if connection_type = ''usb''
            then (Inr (), snd (adb_command br (''adb -s '' @ py_str serial @ '' usb'') w1))
            else (Inr (), w1)) of
        (Inl e, w2) \<Rightarrow> (Inl e, w2)
      | (Inr u, w2) \<Rightarrow>
          (case serial of
             PNone \<Rightarrow> (Inl TypeError, w2)
           | PStr s \<Rightarrow> (Inl SystemExit, w2\<lparr>events := events w2 @ [Scrcpy s]\<rparr>)))))"

text \<open>The body of \<^verbatim>\<open>while True\<close> ends with \<^verbatim>\<open>break\<close>, with \<^verbatim>\<open>sys.exit()\<close> or with an
  exception, so it runs once.\<close>

definition main :: "bridge \<Rightarrow> string list \<Rightarrow> world \<Rightarrow> (error + unit) \<times> world" where
  "main br typed w =
     (case update_device_map br w of
        (Inl e, w1) \<Rightarrow> (Inl e, w1)
      | (Inr u, w1) \<Rightarrow>
     (case json_file w1 of
        None \<Rightarrow> (Inr (), w1)
      | Some device_map \<Rightarrow>
     (case connected_devices device_map of
        Inl e \<Rightarrow> (Inl e, w1)
      | Inr devices \<Rightarrow>
          (if devices = [] then (Inr (), w1)
           else (case display_device_menu br devices typed w1 of
                   (Inl e, rest, w2) \<Rightarrow> (Inl e, w2)
                 | (Inr choice, rest, w2) \<Rightarrow>
                     (if choice = 0 then (Inr (), w2)
                      else (case py_item devices (choice - 1) of
                              Inl e \<Rightarrow> (Inl e, w2)
                            | Inr selected_device \<Rightarrow>
                                (case disconnect_others br devices selected_device w2 of
                                   (Inl e, w3) \<Rightarrow> (Inl e, w3)
                                 | (Inr u, w3) \<Rightarrow> connect_selected br selected_device w3))))))))"


section \<open>Predicates used in the statements\<close>

text \<open>What a reconciliation pass may do to a record that was already stored: it keeps
  every key, and it changes no value outside the four fields the pass fills in.\<close>

definition same_record :: "pydict \<Rightarrow> pydict \<Rightarrow> bool" where
  "same_record d d' =
     (\<forall>k. (map_of d k \<noteq> None \<longrightarrow> map_of d' k \<noteq> None) \<and>
          (k \<notin> {''model'', ''device_type'', ''ip_address'', ''status''} \<longrightarrow> map_of d' k = map_of d k))"

text \<open>What a pass may do to the list of records: the records stay where they are, and a
  record added at the end carries a non-empty serial that has not the shape of an IPv4
  address with a port.\<close>

definition grown :: "pydict list \<Rightarrow> pydict list \<Rightarrow> bool" where
  "grown ds ds' =
     (length ds \<le> length ds' \<and>
      (\<forall>i < length ds. same_record (ds ! i) (ds' ! i)) \<and>
      (\<forall>i. length ds \<le> i \<and> i < length ds' \<longrightarrow>
           (\<exists>s. map_of (ds' ! i) ''serial'' = Some (PStr s) \<and> s \<noteq> [] \<and> \<not> is_ip_port s)))"




section \<open>Concrete bridges and registries\<close>

text \<open>A bridge whose answer depends on the command only.\<close>

definition static_bridge :: "(string \<times> string) list \<Rightarrow> bridge" where
  "static_bridge answers history command = map_of answers command"

definition header :: string where
  "header = ''List of devices attached'' @ [LF]"

definition flat_line :: "string \<Rightarrow> string \<Rightarrow> string" where
  "flat_line serial status = serial @ [TAB] @ status @ [LF]"

definition empty_registry :: world where
  "empty_registry = \<lparr>events = [], json_file = Some []\<rparr>"

text \<open>One authorized device \<^verbatim>\<open>ABC123\<close> on a cable, model \<^verbatim>\<open>Pixel7\<close>.\<close>

definition wired_bridge :: bridge where
  "wired_bridge = static_bridge
     [(''adb devices'', header @ flat_line ''ABC123'' ''device''),
      (''adb devices -l'', header @ ''ABC123 device usb:1-1 model:Pixel7'' @ [LF]),
      (model_query ''ABC123'', ''Pixel7'' @ [LF]),
      (device_query ''ABC123'', ''panther'' @ [LF]),
      (serialno_query ''ABC123'', ''ABC123'' @ [LF])]"

definition wired_record :: "string \<Rightarrow> pyval \<Rightarrow> pydict" where
  "wired_record serial ip =
     [(''name'', PStr []), (''serial'', PStr serial), (''model'', PStr ''Pixel7''),
      (''device_type'', PStr ''panther''), (''ip_address'', ip), (''status'', PStr ''device'')]"

definition stale_registry :: world where
  "stale_registry =
     \<lparr>events = [], json_file = Some [wired_record ''ABC123'' (PStr ''192.168.1.5'')]\<rparr>"

text \<open>Two authorized devices, both on a cable.\<close>

definition two_wired_bridge :: bridge where
  "two_wired_bridge = static_bridge
     [(''adb devices'', header @ flat_line ''AAA'' ''device'' @ flat_line ''BBB'' ''device''),
      (''adb devices -l'',
         header @ ''AAA device usb:1-1 model:Pixel7'' @ [LF] @ ''BBB device usb:1-2 model:Pixel7'' @ [LF])]"

definition two_wired_registry :: world where
  "two_wired_registry =
     \<lparr>events = [],
      json_file = Some [wired_record ''AAA'' (PStr []), wired_record ''BBB'' (PStr [])]\<rparr>"

text \<open>A stored record with a user-given name, and the device \<^verbatim>\<open>XYZ\<close> seen over the
  network with address \<^verbatim>\<open>192.168.1.5\<close>.\<close>

definition named_registry :: world where
  "named_registry =
     \<lparr>events = [],
      json_file = Some [[(''name'', PStr ''MyPhone''), (''serial'', PStr ''XYZ''),
                         (''ip_address'', PStr []), (''status'', PStr ''offline'')]]\<rparr>"

definition wireless_bridge :: bridge where
  "wireless_bridge = static_bridge
     [(''adb devices'', header @ flat_line ''XYZ'' ''device''),
      (''adb devices -l'', header @ ''XYZ device 192.168.1.5:5555 model:Pixel7'' @ [LF]),
      (model_query ''XYZ'', ''Pixel7'' @ [LF]),
      (device_query ''XYZ'', ''panther'' @ [LF]),
      (ip_query ''XYZ'', ''    inet 192.168.1.5/24 brd 192.168.1.255 scope global wlan0'' @ [LF])]"

text \<open>A listing with a wireless session entry, an unauthorized device and a new device.\<close>

definition mixed_bridge :: bridge where
  "mixed_bridge = static_bridge
     [(''adb devices'',
         header @ flat_line ''192.168.1.5:5555'' ''device'' @ flat_line ''XYZ'' ''unauthorized''
           @ flat_line ''ABC123'' ''device''),
      (''adb devices -l'',
         header @ ''192.168.1.5:5555 device model:Pixel7'' @ [LF] @ ''XYZ unauthorized usb:1-2'' @ [LF]
           @ ''ABC123 device usb:1-1 model:Pixel7'' @ [LF]),
      (model_query ''ABC123'', ''Pixel7'' @ [LF]),
      (device_query ''ABC123'', ''panther'' @ [LF]),
      (serialno_query ''ABC123'', ''ABC123'' @ [LF])]"

text \<open>Address queries whose answer has not the shape \<^verbatim>\<open>inet <addr>/<prefix>\<close>.\<close>

definition one_token_bridge :: bridge where
  "one_token_bridge = static_bridge [(ip_query ''ABC123'', ''inet'' @ [LF])]"

definition inet6_bridge :: bridge where
  "inet6_bridge = static_bridge [(ip_query ''ABC123'', ''    inet6 fe80::1/64 scope link'' @ [LF])]"




section \<open>What a pass keeps\<close>

lemma map_of_dict_set: "map_of (dict_set d k v) = (map_of d)(k \<mapsto> v)"
  by (simp add: dict_set_def update_conv')

lemma same_record_refl: "same_record d d"
  by (simp add: same_record_def)

lemma same_record_trans: "same_record a b \<Longrightarrow> same_record b c \<Longrightarrow> same_record a c"
  unfolding same_record_def by metis

lemma same_record_set:
  "k \<in> {''model'', ''device_type'', ''ip_address'', ''status''} \<Longrightarrow> same_record d (dict_set d k v)"
  unfolding same_record_def map_of_dict_set by auto

lemma grown_refl: "grown ds ds"
  by (auto simp: grown_def same_record_refl)

lemma grown_trans:
  assumes "grown a b" and "grown b c"
  shows "grown a c"
  unfolding grown_def
proof (intro conjI allI impI)
  show "length a \<le> length c" using assms by (simp add: grown_def)
next
  fix i assume "i < length a"
  then have "same_record (a ! i) (b ! i)" and "i < length b" using assms(1) by (auto simp: grown_def)
  then show "same_record (a ! i) (c ! i)"
    using assms(2) same_record_trans by (auto simp: grown_def)
next
  fix i assume i: "length a \<le> i \<and> i < length c"
  show "\<exists>s. map_of (c ! i) ''serial'' = Some (PStr s) \<and> s \<noteq> [] \<and> \<not> is_ip_port s"
  proof (cases "i < length b")
    case True
    then obtain s where s: "map_of (b ! i) ''serial'' = Some (PStr s)" "s \<noteq> []" "\<not> is_ip_port s"
      using assms(1) i by (auto simp: grown_def)
    from True assms(2) have "same_record (b ! i) (c ! i)" by (simp add: grown_def)
    then have "map_of (c ! i) ''serial'' = map_of (b ! i) ''serial''"
      by (simp add: same_record_def)
    with s show ?thesis by simp
  next
    case False
    then show ?thesis using assms(2) i by (simp add: grown_def)
  qed
qed

lemma grown_update:
  assumes "i < length ds" and "same_record (ds ! i) d'"
  shows "grown ds (ds[i := d'])"
  using assms by (auto simp: grown_def nth_list_update same_record_refl)

lemma grown_append:
  assumes "map_of d ''serial'' = Some (PStr s)" and "s \<noteq> []" and "\<not> is_ip_port s"
  shows "grown ds (ds @ [d])"
  using assms by (auto simp: grown_def nth_append same_record_refl less_Suc_eq)

lemma new_device_serial: "map_of (new_device s st info) ''serial'' = Some (PStr s)"
  by (simp add: new_device_def)

subsection \<open>The file is written at the very end only\<close>

lemma adb_command_file: "adb_command br c w = (r, w') \<Longrightarrow> json_file w' = json_file w"
  by (auto simp: adb_command_def)

lemma get_device_status_file: "get_device_status br s w = (r, w') \<Longrightarrow> json_file w' = json_file w"
  by (auto simp: get_device_status_def adb_command_def split: if_splits)

lemma get_device_connection_type_file:
  "get_device_connection_type br s w = (r, w') \<Longrightarrow> json_file w' = json_file w"
  by (auto simp: get_device_connection_type_def adb_command_def split: if_splits)

lemma get_device_ip_file: "get_device_ip br s w = (r, w') \<Longrightarrow> json_file w' = json_file w"
  by (auto simp: get_device_ip_def adb_command_def split: if_splits sum.splits)

lemma get_device_info_file: "get_device_info br s w = (r, w') \<Longrightarrow> json_file w' = json_file w"
  unfolding get_device_info_def
  by (auto simp: Let_def split: prod.splits sum.splits if_splits
           dest!: adb_command_file get_device_connection_type_file get_device_ip_file)

lemma fill_field_file: "fill_field br k c d w = (d', w') \<Longrightarrow> json_file w' = json_file w"
  by (auto simp: fill_field_def adb_command_def split: if_splits)

lemma fill_wifi_address_file:
  "fill_wifi_address br s ct d w = (r, w') \<Longrightarrow> json_file w' = json_file w"
  by (auto simp: fill_wifi_address_def adb_command_def Let_def split: if_splits sum.splits)

lemma update_existing_file:
  "update_existing br s st d w = (r, w') \<Longrightarrow> json_file w' = json_file w"
  unfolding update_existing_def
  by (auto split: prod.splits sum.splits
           dest!: fill_field_file get_device_connection_type_file fill_wifi_address_file)

lemma reconcile_line_file:
  "reconcile_line br line st w = (r, w') \<Longrightarrow> json_file w' = json_file w"
  unfolding reconcile_line_def
  by (auto simp: Let_def split: prod.splits sum.splits if_splits option.splits
           dest!: get_device_status_file update_existing_file get_device_info_file)

lemma reconcile_lines_file:
  "reconcile_lines br lines st w = (r, w') \<Longrightarrow> json_file w' = json_file w"
proof (induction lines arbitrary: st w)
  case Nil
  then show ?case by simp
next
  case (Cons line lines)
  then show ?case
    by (auto split: prod.splits sum.splits dest!: reconcile_line_file)
qed

subsection \<open>Stored records are only filled in\<close>

lemma fill_field_same:
  "fill_field br k c d w = (d', w') \<Longrightarrow> k \<in> {''model'', ''device_type'', ''ip_address'', ''status''}
     \<Longrightarrow> same_record d d'"
  by (auto simp: fill_field_def same_record_refl split: if_splits prod.splits intro!: same_record_set)

lemma fill_wifi_address_same:
  "fill_wifi_address br s ct d w = (Inr d', w') \<Longrightarrow> same_record d d'"
  by (auto simp: fill_wifi_address_def Let_def same_record_refl
           split: if_splits sum.splits prod.splits intro!: same_record_set)

lemma set_usb_address_same: "same_record d (set_usb_address ct d)"
  by (auto simp: set_usb_address_def same_record_refl intro!: same_record_set)

lemma set_status_same: "same_record d (set_status st d)"
  by (auto simp: set_status_def same_record_refl intro!: same_record_set)

lemma update_existing_same:
  assumes "update_existing br s st d w = (Inr d', w')"
  shows "same_record d d'"
proof -
  from assms obtain d1 w1 d2 w2 ct w3 d3 where
    a: "fill_field br ''model'' (model_query s) d w = (d1, w1)" and
    b: "fill_field br ''device_type'' (device_query s) d1 w1 = (d2, w2)" and
    c: "fill_wifi_address br s ct d2 w3 = (Inr d3, w')" and
    d: "d' = set_status st (set_usb_address ct d3)"
    unfolding update_existing_def by (auto split: prod.splits sum.splits)
  have "same_record d d1" using a by (rule fill_field_same) simp
  moreover have "same_record d1 d2" using b by (rule fill_field_same) simp
  moreover have "same_record d2 d3" using c by (rule fill_wifi_address_same)
  moreover have "same_record d3 d'" unfolding d
    using set_usb_address_same set_status_same same_record_trans by blast
  ultimately show ?thesis using same_record_trans by blast
qed

lemma reconcile_line_grown:
  assumes "reconcile_line br line (ds, ix) w = (Inr (ds', ix'), w')"
  shows "grown ds ds'"
  using assms unfolding reconcile_line_def
  by (auto simp: Let_def item_def grown_refl new_device_serial
           split: prod.splits sum.splits if_splits option.splits
           dest!: update_existing_same intro!: grown_update grown_append)

lemma reconcile_lines_grown:
  "reconcile_lines br lines (ds, ix) w = (Inr (ds', ix'), w') \<Longrightarrow> grown ds ds'"
proof (induction lines arbitrary: ds ix w)
  case Nil
  then show ?case by (simp add: grown_refl)
next
  case (Cons line lines)
  from Cons.prems obtain ds1 ix1 w1 where
    a: "reconcile_line br line (ds, ix) w = (Inr (ds1, ix1), w1)" and
    b: "reconcile_lines br lines (ds1, ix1) w1 = (Inr (ds', ix'), w')"
    by (auto split: prod.splits sum.splits)
  from a have "grown ds ds1" by (rule reconcile_line_grown)
  moreover from b have "grown ds1 ds'" by (rule Cons.IH)
  ultimately show ?case by (rule grown_trans)
qed

lemma update_device_map_grown:
  assumes "update_device_map br w = (r, w')"
  shows "grown (load_devices w) (load_devices w')"
proof -
  obtain dl w1 where a: "adb_command br ''adb devices'' w = (dl, w1)" by force
  then have f1: "json_file w1 = json_file w" by (rule adb_command_file)
  then have l1: "load_devices w1 = load_devices w" by (simp add: load_devices_def)
  show ?thesis
  proof (cases "build_index (load_devices w) 0 Map.empty")
    case (Inl e)
    with assms a l1 have "w' = w1" by (simp add: update_device_map_def)
    with l1 show ?thesis by (simp add: grown_refl)
  next
    case (Inr ix)
    show ?thesis
    proof (cases "truthy_text dl")
      case False
      with assms a l1 Inr have "w' = w1\<lparr>json_file := Some (load_devices w)\<rparr>"
        by (simp add: update_device_map_def)
      then show ?thesis by (simp add: load_devices_def grown_refl)
    next
      case True
      obtain r2 w2 where
        c: "reconcile_lines br (splitlines (or_empty dl)) (load_devices w, ix) w1 = (r2, w2)"
        by force
      then have f2: "json_file w2 = json_file w" using f1 by (auto dest: reconcile_lines_file)
      show ?thesis
      proof (cases r2)
        case (Inl e)
        with assms a l1 Inr True c have "w' = w2" by (simp add: update_device_map_def)
        with f2 show ?thesis by (simp add: load_devices_def grown_refl)
      next
        case (Inr st)
        obtain ds' ix' where st: "st = (ds', ix')" by force
        with assms a l1 \<open>build_index (load_devices w) 0 Map.empty = Inr ix\<close> True c Inr
        have "w' = w2\<lparr>json_file := Some ds'\<rparr>" by (simp add: update_device_map_def)
        moreover have "grown (load_devices w) ds'"
          using c Inr st by (auto dest: reconcile_lines_grown)
        ultimately show ?thesis by (simp add: load_devices_def)
      qed
    qed
  qed
qed

section \<open>Properties of the session launcher\<close>

text \<open>Claim C1, as the code has it: the loop of \<^verbatim>\<open>main\<close> issues a disconnect for every
  listed device whose record differs from the selected record, in list order, whatever
  its medium; the medium of the other devices is never looked at.  (The records are
  taken to have the keys \<^verbatim>\<open>serial\<close> and \<^verbatim>\<open>name\<close>, as every record the program writes
  has.)\<close>

theorem disconnect_others_every_other_device:
  assumes "\<forall>d \<in> set devices. map_of d ''serial'' \<noteq> None \<and> map_of d ''name'' \<noteq> None"
  shows "disconnect_others br devices selected_device w =
           (Inr (),
            w\<lparr>events := events w @
                 map (\<lambda>d. Adb (disconnect_command (dict_get d ''serial'')))
                     (filter (\<lambda>d. \<not> dict_eq d selected_device) devices)\<rparr>)"
  using assms
proof (induction devices arbitrary: w)
  case Nil
  then show ?case by simp
next
  case (Cons d devices)
  then have ih: "\<And>v. disconnect_others br devices selected_device v =
           (Inr (),
            v\<lparr>events := events v @
                 map (\<lambda>d. Adb (disconnect_command (dict_get d ''serial'')))
                     (filter (\<lambda>d. \<not> dict_eq d selected_device) devices)\<rparr>)"
    by simp
  from Cons.prems obtain sv nv where
    k: "map_of d ''serial'' = Some sv" "map_of d ''name'' = Some nv" by auto
  show ?case
    by (simp add: ih k dict_item_def dict_get_def adb_command_def)
qed

text \<open>Claim C1, the amended statement at two devices on a cable: the second is
  disconnected.\<close>

theorem disconnect_others_every_other_device_witness:
  "disconnect_others two_wired_bridge [wired_record ''AAA'' (PStr []), wired_record ''BBB'' (PStr [])]
     (wired_record ''AAA'' (PStr [])) empty_registry
     = (Inr (), empty_registry\<lparr>events := [Adb ''adb -s BBB disconnect'']\<rparr>)"
proof -
  have keys: "\<forall>d \<in> set [wired_record ''AAA'' (PStr []), wired_record ''BBB'' (PStr [])].
                map_of d ''serial'' \<noteq> None \<and> map_of d ''name'' \<noteq> None"
    by code_simp
  have ev: "events empty_registry @
              map (\<lambda>d. Adb (disconnect_command (dict_get d ''serial'')))
                  (filter (\<lambda>d. \<not> dict_eq d (wired_record ''AAA'' (PStr [])))
                     [wired_record ''AAA'' (PStr []), wired_record ''BBB'' (PStr [])])
            = [Adb ''adb -s BBB disconnect'']"
    by code_simp
  from disconnect_others_every_other_device
         [OF keys, of two_wired_bridge "wired_record ''AAA'' (PStr [])" empty_registry] ev
  show ?thesis by simp
qed

text \<open>Claim C1 as stated fails: with two authorized devices on a cable and the first one
  chosen, \<^verbatim>\<open>main\<close> sends a disconnect to the second, whose medium is wired.\<close>

theorem wired_device_disconnected:
  "Adb ''adb -s BBB disconnect'' \<in> set (events (snd (main two_wired_bridge [''1''] two_wired_registry))) \<and>
   fst (get_device_connection_type two_wired_bridge (PStr ''BBB'')
          (snd (main two_wired_bridge [''1''] two_wired_registry))) = Inr ''usb''"
  by code_simp

section \<open>The address of a wired record\<close>

lemma fill_field_other:
  "fill_field br k c d w = (d', w') \<Longrightarrow> k \<noteq> k' \<Longrightarrow> dict_get d' k' = dict_get d k'"
  by (auto simp: fill_field_def dict_get_def map_of_dict_set split: if_splits prod.splits)

lemma set_status_address: "dict_get (set_status st d) ''ip_address'' = dict_get d ''ip_address''"
  by (simp add: set_status_def dict_get_def map_of_dict_set)

lemma set_usb_address_usb:
  "dict_get (set_usb_address ''usb'' d) ''ip_address'' =
     (if truthy (dict_get d ''ip_address'') then dict_get d ''ip_address'' else PStr [])"
  by (simp add: set_usb_address_def dict_get_def map_of_dict_set)

lemma static_medium:
  "fst (get_device_connection_type (static_bridge answers) serial v) =
   fst (get_device_connection_type (static_bridge answers) serial v')"
  by (simp add: get_device_connection_type_def adb_command_def static_bridge_def)

text \<open>Claim C2, as the code has it: when the medium of an authorized, stored record is
  found to be wired, the update succeeds and the address becomes the empty string only
  if it was missing, null or empty; a non-empty stored address is left as it is.\<close>

theorem wired_address_set_only_when_empty:
  assumes "\<And>v. fst (get_device_connection_type br (PStr serial) v) = Inr ''usb''"
  shows "\<exists>device' w'.
           update_existing br serial status device w = (Inr device', w') \<and>
           dict_get device' ''ip_address'' =
             (if truthy (dict_get device ''ip_address'') then dict_get device ''ip_address''
              else PStr [])"
proof -
  obtain d1 w1 where a: "fill_field br ''model'' (model_query serial) device w = (d1, w1)"
    by force
  obtain d2 w2 where b: "fill_field br ''device_type'' (device_query serial) d1 w1 = (d2, w2)"
    by force
  obtain w3 where c: "get_device_connection_type br (PStr serial) w2 = (Inr ''usb'', w3)"
    using assms [of w2] by (cases "get_device_connection_type br (PStr serial) w2") simp
  have d: "fill_wifi_address br serial ''usb'' d2 w3 = (Inr d2, w3)"
    by (simp add: fill_wifi_address_def)
  have run: "update_existing br serial status device w =
               (Inr (set_status status (set_usb_address ''usb'' d2)), w3)"
    by (simp add: update_existing_def a b c d)
  have "dict_get d2 ''ip_address'' = dict_get device ''ip_address''"
    using fill_field_other [OF a] fill_field_other [OF b] by simp
  then have "dict_get (set_status status (set_usb_address ''usb'' d2)) ''ip_address'' =
             (if truthy (dict_get device ''ip_address'') then dict_get device ''ip_address''
              else PStr [])"
    by (simp add: set_status_address set_usb_address_usb)
  with run show ?thesis by blast
qed

text \<open>Claim C2, the amended statement at a wired record whose address is null.\<close>

theorem wired_address_set_only_when_empty_witness:
  "(\<forall>v. fst (get_device_connection_type wired_bridge (PStr ''ABC123'') v) = Inr ''usb'') \<and>
   (\<exists>device' w'.
      update_existing wired_bridge ''ABC123'' ''device'' (wired_record ''ABC123'' PNone)
        empty_registry = (Inr device', w') \<and>
      dict_get device' ''ip_address'' = PStr [])"
proof -
  have c: "fst (get_device_connection_type wired_bridge (PStr ''ABC123'') empty_registry) = Inr ''usb''"
    by code_simp
  have h: "fst (get_device_connection_type wired_bridge (PStr ''ABC123'') v) = Inr ''usb''" for v
  proof -
    have "fst (get_device_connection_type wired_bridge (PStr ''ABC123'') v) =
          fst (get_device_connection_type wired_bridge (PStr ''ABC123'') empty_registry)"
      unfolding wired_bridge_def by (rule static_medium)
    with c show ?thesis by simp
  qed
  have e: "\<not> truthy (dict_get (wired_record ''ABC123'' PNone) ''ip_address'')"
    by code_simp
  show ?thesis
    using h wired_address_set_only_when_empty
            [of wired_bridge "''ABC123''" "''device''" "wired_record ''ABC123'' PNone" empty_registry, OF h]
          e
    by simp
qed

text \<open>Claim C2 as stated fails: a stored record with status \<^verbatim>\<open>device\<close> and address
  \<^verbatim>\<open>192.168.1.5\<close>, now on a cable, keeps that address through a pass.\<close>

theorem wired_record_keeps_address:
  "fst (update_device_map wired_bridge stale_registry) = Inr () \<and>
   fst (get_device_connection_type wired_bridge (PStr ''ABC123'')
          (snd (update_device_map wired_bridge stale_registry))) = Inr ''usb'' \<and>
   map (\<lambda>d. (dict_get d ''status'', dict_get d ''ip_address''))
       (load_devices (snd (update_device_map wired_bridge stale_registry)))
     = [(PStr ''device'', PStr ''192.168.1.5'')]"
  by code_simp

section \<open>A new wired device\<close>

text \<open>Claim C3 at the scenario of the specification: registry empty, one authorized wired
  serial \<^verbatim>\<open>ABC123\<close> with model \<^verbatim>\<open>Pixel7\<close>.  The pass appends one record with an empty
  name and status \<^verbatim>\<open>device\<close>, but its address is \<^verbatim>\<open>None\<close> (written as \<^verbatim>\<open>null\<close>), not the
  empty string: \<^verbatim>\<open>get_device_info\<close> stores \<^verbatim>\<open>None\<close> under the key, so the default of
  \<^verbatim>\<open>device_info.get("ip_address", "")\<close> is never used.\<close>

theorem new_wired_record_null_address:
  "update_device_map wired_bridge empty_registry =
     (Inr (),
      \<lparr>events = [Adb ''adb devices'', Adb ''adb devices'',
                 Adb (model_query ''ABC123''), Adb (device_query ''ABC123''),
                 Adb (serialno_query ''ABC123''), Adb ''adb devices -l''],
       json_file = Some [[(''name'', PStr []), (''serial'', PStr ''ABC123''),
                          (''model'', PStr ''Pixel7''), (''device_type'', PStr ''panther''),
                          (''ip_address'', PNone), (''status'', PStr ''device'')]]\<rparr>)"
  by code_simp

text \<open>Claim C4 at the same scenario, run twice with the same answers: the first pass
  stores the address \<^verbatim>\<open>None\<close>, the second finds the record, sees a cable and replaces
  \<^verbatim>\<open>None\<close> by the empty string, so the second pass changes the file.\<close>

theorem second_run_rewrites_address:
  "fst (update_device_map wired_bridge empty_registry) = Inr () \<and>
   fst (update_device_map wired_bridge (snd (update_device_map wired_bridge empty_registry)))
     = Inr () \<and>
   map (\<lambda>d. dict_item d ''ip_address'')
       (load_devices (snd (update_device_map wired_bridge empty_registry)))
     = [Inr PNone] \<and>
   map (\<lambda>d. dict_item d ''ip_address'')
       (load_devices
          (snd (update_device_map wired_bridge (snd (update_device_map wired_bridge empty_registry)))))
     = [Inr (PStr [])] \<and>
   json_file (snd (update_device_map wired_bridge (snd (update_device_map wired_bridge empty_registry))))
     \<noteq> json_file (snd (update_device_map wired_bridge empty_registry))"
  by code_simp

section \<open>Names, entries and serials\<close>

text \<open>Claim C5: a pass leaves the \<^verbatim>\<open>name\<close> entry of every stored record as it was,
  whatever the bridge answers and whether or not the pass ends with an exception (this
  covers every record with a non-empty name).\<close>

theorem name_preserved:
  assumes "update_device_map br w = (r, w')" and "i < length (load_devices w)"
  shows "i < length (load_devices w') \<and>
         map_of (load_devices w' ! i) ''name'' = map_of (load_devices w ! i) ''name''"
  using update_device_map_grown [OF assms(1)] assms(2)
  by (auto simp: grown_def same_record_def)

text \<open>Claim C5 at the stored record named \<^verbatim>\<open>MyPhone\<close>, whose status and address the pass
  does change.\<close>

theorem name_preserved_witness:
  "0 < length (load_devices named_registry) \<and>
   map_of (load_devices (snd (update_device_map wireless_bridge named_registry)) ! 0) ''name''
     = Some (PStr ''MyPhone'') \<and>
   dict_get (load_devices (snd (update_device_map wireless_bridge named_registry)) ! 0) ''ip_address''
     = PStr ''192.168.1.5''"
proof -
  have run: "update_device_map wireless_bridge named_registry =
               (fst (update_device_map wireless_bridge named_registry),
                snd (update_device_map wireless_bridge named_registry))"
    by simp
  have len: "0 < length (load_devices named_registry)" by code_simp
  have before: "map_of (load_devices named_registry ! 0) ''name'' = Some (PStr ''MyPhone'')"
    by code_simp
  have address:
    "dict_get (load_devices (snd (update_device_map wireless_bridge named_registry)) ! 0) ''ip_address''
       = PStr ''192.168.1.5''"
    by code_simp
  from name_preserved [OF run len] before address len show ?thesis by simp
qed

text \<open>Claim C7: a line whose serial field has the shape of an IPv4 address with a port is
  skipped without a query and without a change; and after a pass every record either
  was stored before, at the same place and with the same serial, or has a serial that
  has not that shape.\<close>

theorem ip_port_serial_never_stored:
  "(item (split_on TAB line) 0 = Inr token \<and> is_ip_port token
      \<longrightarrow> reconcile_line br line st w = (Inr st, w)) \<and>
   (update_device_map br w = (r, w')
      \<longrightarrow> (\<forall>i < length (load_devices w').
             (i < length (load_devices w) \<and>
              map_of (load_devices w' ! i) ''serial'' = map_of (load_devices w ! i) ''serial'') \<or>
             (\<exists>s. map_of (load_devices w' ! i) ''serial'' = Some (PStr s) \<and> \<not> is_ip_port s)))"
proof (intro conjI impI allI)
  assume "item (split_on TAB line) 0 = Inr token \<and> is_ip_port token"
  then show "reconcile_line br line st w = (Inr st, w)"
    by (cases st) (simp add: reconcile_line_def)
next
  fix i
  assume run: "update_device_map br w = (r, w')" and i: "i < length (load_devices w')"
  have g: "grown (load_devices w) (load_devices w')" using run by (rule update_device_map_grown)
  show "(i < length (load_devices w) \<and>
         map_of (load_devices w' ! i) ''serial'' = map_of (load_devices w ! i) ''serial'') \<or>
        (\<exists>s. map_of (load_devices w' ! i) ''serial'' = Some (PStr s) \<and> \<not> is_ip_port s)"
  proof (cases "i < length (load_devices w)")
    case True
    with g have "same_record (load_devices w ! i) (load_devices w' ! i)" by (simp add: grown_def)
    then have "map_of (load_devices w' ! i) ''serial'' = map_of (load_devices w ! i) ''serial''"
      by (simp add: same_record_def)
    with True show ?thesis by simp
  next
    case False
    then have "length (load_devices w) \<le> i \<and> i < length (load_devices w')" using i by simp
    with g obtain s where
      "map_of (load_devices w' ! i) ''serial'' = Some (PStr s)" and "\<not> is_ip_port s"
      unfolding grown_def by blast
    then show ?thesis by blast
  qed
qed

text \<open>Claim C7 at a listing that holds the wireless session entry
  \<^verbatim>\<open>192.168.1.5:5555\<close>: only \<^verbatim>\<open>ABC123\<close> is stored.\<close>

theorem ip_port_serial_never_stored_witness:
  "item (split_on TAB (''192.168.1.5:5555'' @ [TAB] @ ''device'')) 0 = Inr ''192.168.1.5:5555'' \<and>
   is_ip_port ''192.168.1.5:5555'' \<and>
   reconcile_line mixed_bridge (''192.168.1.5:5555'' @ [TAB] @ ''device'') ([], Map.empty) empty_registry
     = (Inr ([], Map.empty), empty_registry) \<and>
   map (\<lambda>d. map_of d ''serial'') (load_devices (snd (update_device_map mixed_bridge empty_registry)))
     = [Some (PStr ''ABC123'')] \<and>
   (\<exists>s. map_of (load_devices (snd (update_device_map mixed_bridge empty_registry)) ! 0) ''serial''
          = Some (PStr s) \<and> \<not> is_ip_port s)"
proof -
  have tok: "item (split_on TAB (''192.168.1.5:5555'' @ [TAB] @ ''device'')) 0 = Inr ''192.168.1.5:5555''"
    by code_simp
  have shape: "is_ip_port ''192.168.1.5:5555''" by code_simp
  have run: "update_device_map mixed_bridge empty_registry =
               (fst (update_device_map mixed_bridge empty_registry),
                snd (update_device_map mixed_bridge empty_registry))"
    by simp
  have before: "load_devices empty_registry = []" by code_simp
  have after: "map (\<lambda>d. map_of d ''serial'')
                 (load_devices (snd (update_device_map mixed_bridge empty_registry)))
               = [Some (PStr ''ABC123'')]"
    by code_simp
  note inst = ip_port_serial_never_stored
    [of "''192.168.1.5:5555'' @ [TAB] @ ''device''" "''192.168.1.5:5555''" mixed_bridge
        "([], Map.empty)" empty_registry
        "fst (update_device_map mixed_bridge empty_registry)"
        "snd (update_device_map mixed_bridge empty_registry)"]
  from inst tok shape have skip:
    "reconcile_line mixed_bridge (''192.168.1.5:5555'' @ [TAB] @ ''device'') ([], Map.empty) empty_registry
       = (Inr ([], Map.empty), empty_registry)"
    by blast
  have len: "0 < length (load_devices (snd (update_device_map mixed_bridge empty_registry)))"
    by code_simp
  from inst run before len have
    "\<exists>s. map_of (load_devices (snd (update_device_map mixed_bridge empty_registry)) ! 0) ''serial''
           = Some (PStr s) \<and> \<not> is_ip_port s"
    by simp
  with tok shape skip after show ?thesis by blast
qed

text \<open>Claim C8: after a pass every stored record is still there, at the same place, with
  all its keys, and with the same value under every key other than the four that a pass
  fills in; and the branch for a status other than \<^verbatim>\<open>device\<close> returns the registry
  unchanged (or raises, and then nothing is written).\<close>

theorem entries_never_removed:
  "(update_device_map br w = (r, w')
      \<longrightarrow> length (load_devices w) \<le> length (load_devices w') \<and>
          (\<forall>i < length (load_devices w). \<forall>k.
             (map_of (load_devices w ! i) k \<noteq> None \<longrightarrow> map_of (load_devices w' ! i) k \<noteq> None) \<and>
             (k \<notin> {''model'', ''device_type'', ''ip_address'', ''status''}
                \<longrightarrow> map_of (load_devices w' ! i) k = map_of (load_devices w ! i) k))) \<and>
   (item (split_on TAB line) 0 = Inr token \<and>
    get_device_status br token w = (Inr status, w1) \<and> status \<noteq> ''device''
      \<longrightarrow> (case fst (reconcile_line br line st w) of Inl e \<Rightarrow> True | Inr st' \<Rightarrow> st' = st))"
proof (intro conjI impI)
  assume "update_device_map br w = (r, w')"
  then have g: "grown (load_devices w) (load_devices w')" by (rule update_device_map_grown)
  then show "length (load_devices w) \<le> length (load_devices w')" by (simp add: grown_def)
  from g show "\<forall>i < length (load_devices w). \<forall>k.
             (map_of (load_devices w ! i) k \<noteq> None \<longrightarrow> map_of (load_devices w' ! i) k \<noteq> None) \<and>
             (k \<notin> {''model'', ''device_type'', ''ip_address'', ''status''}
                \<longrightarrow> map_of (load_devices w' ! i) k = map_of (load_devices w ! i) k)"
    unfolding grown_def same_record_def by blast
next
  assume "item (split_on TAB line) 0 = Inr token \<and>
    get_device_status br token w = (Inr status, w1) \<and> status \<noteq> ''device''"
  then show "case fst (reconcile_line br line st w) of Inl e \<Rightarrow> True | Inr st' \<Rightarrow> st' = st"
    by (cases st) (auto simp: reconcile_line_def Let_def split: sum.splits)
qed

text \<open>Claim C8 at a registry that holds the now unauthorized device \<^verbatim>\<open>XYZ\<close>, while a new
  device is added.\<close>

theorem entries_never_removed_witness:
  "get_device_status mixed_bridge ''XYZ'' named_registry
     = (Inr ''unauthorized'', named_registry\<lparr>events := [Adb ''adb devices'']\<rparr>) \<and>
   (case fst (reconcile_line mixed_bridge (''XYZ'' @ [TAB] @ ''unauthorized'')
                (load_devices named_registry, Map.empty) named_registry) of
      Inl e \<Rightarrow> True
    | Inr st' \<Rightarrow> st' = (load_devices named_registry, Map.empty)) \<and>
   map (\<lambda>d. map_of d ''serial'') (load_devices (snd (update_device_map mixed_bridge named_registry)))
     = [Some (PStr ''XYZ''), Some (PStr ''ABC123'')] \<and>
   map_of (load_devices (snd (update_device_map mixed_bridge named_registry)) ! 0) ''name''
     = Some (PStr ''MyPhone'')"
proof -
  have tok: "item (split_on TAB (''XYZ'' @ [TAB] @ ''unauthorized'')) 0 = Inr ''XYZ''"
    by code_simp
  have st: "get_device_status mixed_bridge ''XYZ'' named_registry
              = (Inr ''unauthorized'', named_registry\<lparr>events := [Adb ''adb devices'']\<rparr>)"
    by code_simp
  have run: "update_device_map mixed_bridge named_registry =
               (fst (update_device_map mixed_bridge named_registry),
                snd (update_device_map mixed_bridge named_registry))"
    by simp
  have len: "0 < length (load_devices named_registry)" by code_simp
  have before: "map_of (load_devices named_registry ! 0) ''name'' = Some (PStr ''MyPhone'')"
    by code_simp
  have after: "map (\<lambda>d. map_of d ''serial'')
                 (load_devices (snd (update_device_map mixed_bridge named_registry)))
               = [Some (PStr ''XYZ''), Some (PStr ''ABC123'')]"
    by code_simp
  note inst = entries_never_removed
    [of mixed_bridge named_registry "fst (update_device_map mixed_bridge named_registry)"
        "snd (update_device_map mixed_bridge named_registry)"
        "''XYZ'' @ [TAB] @ ''unauthorized''" "''XYZ''" "''unauthorized''"
        "named_registry\<lparr>events := [Adb ''adb devices'']\<rparr>"
        "(load_devices named_registry, Map.empty)"]
  from inst tok st have same:
    "case fst (reconcile_line mixed_bridge (''XYZ'' @ [TAB] @ ''unauthorized'')
                (load_devices named_registry, Map.empty) named_registry) of
      Inl e \<Rightarrow> True
    | Inr st' \<Rightarrow> st' = (load_devices named_registry, Map.empty)"
    by simp
  from inst run len have
    "map_of (load_devices (snd (update_device_map mixed_bridge named_registry)) ! 0) ''name''
       = map_of (load_devices named_registry ! 0) ''name''"
    by simp
  with before st same after show ?thesis by simp
qed

section \<open>Address extraction\<close>

text \<open>Claim C6 at two answers of the address query that have not the expected shape: for
  the one-word answer \<^verbatim>\<open>inet\<close> both \<^verbatim>\<open>get_device_ip\<close> and the same parse inside the
  reconciliation raise \<^verbatim>\<open>IndexError\<close>; for an answer with an \<^verbatim>\<open>inet6\<close> line only,
  \<^verbatim>\<open>get_device_ip\<close> returns \<^verbatim>\<open>fe80::1\<close> as the address.\<close>

theorem address_parse_mismatch:
  "get_device_ip one_token_bridge ''ABC123'' empty_registry =
     (Inl IndexError, empty_registry\<lparr>events := [Adb (ip_query ''ABC123'')]\<rparr>) \<and>
   fst (fill_wifi_address one_token_bridge ''ABC123'' ''wifi'' [(''serial'', PStr ''ABC123'')] empty_registry)
     = Inl IndexError \<and>
   fst (get_device_ip inet6_bridge ''ABC123'' empty_registry) = Inr (Some ''fe80::1'')"
  by code_simp

section \<open>Properties of the authorization check\<close>





section \<open>Properties of the selection menu\<close>

lemma print_menu_options_item:
  "print_menu_options devices = Inr () \<Longrightarrow> d \<in> set devices
     \<Longrightarrow> dict_item d ''serial'' = Inr (dict_get d ''serial'')"
  by (induction devices) (auto simp: dict_item_def dict_get_def split: option.splits sum.splits)

lemma py_item_last: "devices \<noteq> [] \<Longrightarrow> py_item devices (- 1) = Inr (last devices)"
  by (cases devices) (simp_all add: py_item_def last_conv_nth)

lemma py_item_empty: "py_item [] i = Inl IndexError"
  by (simp add: py_item_def item_def)

text \<open>Claim C10: when the typed text reads as 0, the menu with no device raises
  \<^verbatim>\<open>IndexError\<close>; with devices it takes the last one (index \<^verbatim>\<open>-1\<close>), runs the
  authorization check on its serial, and returns 0 whatever the check answers.\<close>

theorem menu_exit_choice_checks_last_device:
  assumes "py_int typed = Some 0"
  shows "display_device_menu br [] (typed # rest) w = (Inl IndexError, rest, w) \<and>
         (devices \<noteq> [] \<and> print_menu_options devices = Inr ()
            \<longrightarrow> display_device_menu br devices (typed # rest) w =
                (case is_device_authorized br (dict_get (last devices) ''serial'') w of
                   (Inl e, w1) \<Rightarrow> (Inl e, rest, w1)
                 | (Inr authorized, w1) \<Rightarrow> (Inr 0, rest, w1)))"
proof (intro conjI impI)
  show "display_device_menu br [] (typed # rest) w = (Inl IndexError, rest, w)"
    using assms by (simp add: py_item_empty)
next
  assume a: "devices \<noteq> [] \<and> print_menu_options devices = Inr ()"
  then have "dict_item (last devices) ''serial'' = Inr (dict_get (last devices) ''serial'')"
    by (intro print_menu_options_item) auto
  with a assms show "display_device_menu br devices (typed # rest) w =
                (case is_device_authorized br (dict_get (last devices) ''serial'') w of
                   (Inl e, w1) \<Rightarrow> (Inl e, rest, w1)
                 | (Inr authorized, w1) \<Rightarrow> (Inr 0, rest, w1))"
    by (auto simp: py_item_last split: prod.splits sum.splits)
qed

text \<open>Claim C10 at the text \<^verbatim>\<open>0\<close>, with no device and with one device.\<close>

theorem menu_exit_choice_checks_last_device_witness:
  "py_int ''0'' = Some 0 \<and>
   display_device_menu wired_bridge [] [''0''] empty_registry = (Inl IndexError, [], empty_registry) \<and>
   display_device_menu wired_bridge [wired_record ''ABC123'' PNone] [''0''] empty_registry
     = (Inr 0, [], empty_registry\<lparr>events := [Adb ''adb devices'']\<rparr>)"
proof -
  have z: "py_int ''0'' = Some 0" by code_simp
  have ne: "[wired_record ''ABC123'' PNone] \<noteq> [] \<and>
            print_menu_options [wired_record ''ABC123'' PNone] = Inr ()"
    by code_simp
  have a: "is_device_authorized wired_bridge (dict_get (last [wired_record ''ABC123'' PNone]) ''serial'')
             empty_registry = (Inr True, empty_registry\<lparr>events := [Adb ''adb devices'']\<rparr>)"
    by code_simp
  from menu_exit_choice_checks_last_device
         [OF z, of wired_bridge "[]" empty_registry "[wired_record ''ABC123'' PNone]"] ne a z
  show ?thesis by simp
qed

end
